theory Spec2Isabelle
  imports Main "HOL-Library.Word"
begin

section \<open>Common types\<close>

text \<open>
  A Go \<open>[]byte\<close> is a list of 8-bit words, a Go \<open>string\<close> is an Isabelle
  \<open>string\<close> (a list of 8-bit characters). \<open>StringToBytes\<close> is Go's conversion
  \<open>[]byte(s)\<close>.
\<close>

type_synonym byte = "8 word"
type_synonym bytes = "byte list"

definition StringToBytes :: "string \<Rightarrow> bytes" where
  "StringToBytes s = map (\<lambda>c. of_nat (of_char c)) s"

text \<open>
  Go errors. \<open>Error msg\<close> is a plain error with a message (\<open>errors.New(msg)\<close>, or an
  error of the operating system or of the standard library, kept by its message). The
  four \<open>...Error\<close> constructors are the error kinds that the functions
  \<open>netlib.NewCanNotConnectError\<close>, \<open>NewCanNotSendError\<close>, \<open>NewNoResponseError\<close> and
  \<open>NewCanNotParseResponseError\<close> build. \<open>CorruptInputError\<close> is the error of
  \<open>encoding/base64\<close> (its offset is not kept).
\<close>

datatype error =
    Error string
  | CanNotConnectError string
  | CanNotSendError string
  | NoResponseError string
  | CanNotParseResponseError string
  | CorruptInputError

section \<open>Package dbquery: the parsed query (node/dbquery/parsed.go)\<close>

subsection \<open>Data\<close>

text \<open>
  The query kinds are the constants \<open>lib.QueryKindSelect\<close>, ... of package \<open>lib\<close>,
  which the file compares \<open>GetKind()\<close> with. Their declaration is not part of the
  file; they are six different values of a Go basic type, so \<open>GetKind()\<close> can also
  return a value that is none of the six: \<open>QueryKindOther\<close> stands for those.
\<close>

datatype QueryKind =
    QueryKindSelect
  | QueryKindUpdate
  | QueryKindInsert
  | QueryKindDelete
  | QueryKindCreate
  | QueryKindDrop
  | QueryKindOther string

text \<open>
  \<open>sqlparser.SQLQueryParserInterface\<close>: the file calls \<open>GetKind\<close>, \<open>GetTable\<close> and
  \<open>GetComments\<close> only, so the parsed structure is the record of what these return.
\<close>

record SQLQueryParser =
  GetKind :: QueryKind
  GetTable :: string
  GetComments :: "string list"

record QueryParsed =
  SQL :: string
  PubKey :: bytes
  Signature :: bytes
  TransactionBytes :: bytes
  KeyCol :: string
  KeyVal :: string
  RowBeforeQuery :: "string \<rightharpoonup> string"
  Structure :: SQLQueryParser

subsection \<open>Kind of a query\<close>

definition ReferenceID :: "QueryParsed \<Rightarrow> string" where
  "ReferenceID qp = GetTable (Structure qp) @ '':'' @ KeyVal qp"

definition IsSelect :: "QueryParsed \<Rightarrow> bool" where
  "IsSelect qp = (GetKind (Structure qp) = QueryKindSelect)"

definition IsUpdate :: "QueryParsed \<Rightarrow> bool" where
  "IsUpdate qp =
     (GetKind (Structure qp) = QueryKindCreate \<or>
      GetKind (Structure qp) = QueryKindDrop \<or>
      GetKind (Structure qp) = QueryKindDelete \<or>
      GetKind (Structure qp) = QueryKindInsert \<or>
      GetKind (Structure qp) = QueryKindUpdate)"

subsection \<open>Rollback query\<close>

text \<open>
  Modelled from the spec: \<open>database.Quote\<close> (package \<open>node/database\<close>, not among the
  files), the "SQL-quote escaping applied to the key value", of which the spec says that
  "quoting escapes the embedded quote" and that the key value \<open>a'b\<close> becomes \<open>a\'b\<close>:
  every single quote gets a backslash in front of it.
\<close>

definition Quote :: "string \<Rightarrow> string" where
  "Quote s = concat (map (\<lambda>c. if c = CHR 0x27 then [CHR 0x5C, CHR 0x27] else [c]) s)"

text \<open>The result is the pair Go returns: the query text and the error (\<open>None\<close> is \<open>nil\<close>).\<close>

definition buildRollbackSQL :: "QueryParsed \<Rightarrow> string \<times> error option" where
  "buildRollbackSQL qp =
     (if GetKind (Structure qp) = QueryKindCreate then
        (''DROP TABLE '' @ GetTable (Structure qp), None)
      else if GetKind (Structure qp) = QueryKindDrop then
        ([], None)
      else if GetKind (Structure qp) = QueryKindInsert then
        (''DELETE FROM '' @ GetTable (Structure qp) @ '' WHERE '' @ KeyCol qp @
           [CHR ''='', CHR 0x27] @ Quote (KeyVal qp) @ [CHR 0x27], None)
      else ([], None))"

subsection \<open>The envelope in the comment\<close>

text \<open>
  \<open>regexp.Compile\<close> and \<open>FindAllString\<close> belong to Go's standard library. The file
  compiles three expressions of one shape, \<open>SIGN:([^;]+);\<close>, \<open>DATA:([^;]+);\<close> and
  \<open>PUBKEY:([^;]+);\<close>: the marker's name, a colon, one or more characters other than a
  semicolon, a semicolon. All three are valid expressions, so \<open>Compile\<close> returns no
  error and the three \<open>if err != nil\<close> after it are never taken.

  \<open>matchMarker name s\<close> is the match of \<open>name:([^;]+);\<close> that starts at the first
  character of \<open>s\<close>, if there is one: the class \<open>[^;]\<close> cannot step over a semicolon,
  so the match ends at the first semicolon after the colon.
\<close>

definition matchMarker :: "string \<Rightarrow> string \<Rightarrow> string option" where
  "matchMarker name s =
     (let p = name @ '':'' in
      if take (length p) s = p then
        (let rest = drop (length p) s;
             v = takeWhile (\<lambda>c. c \<noteq> CHR '';'') rest
         in if v \<noteq> [] \<and> length v < length rest then Some (p @ v @ '';'') else None)
      else None)"

text \<open>
  \<open>r.FindAllString(s, -1)\<close>: the texts of all matches, from left to right, the search
  going on behind each match (matches do not overlap). Every text is a whole match,
  marker name, colon and semicolon included; the group \<open>([^;]+)\<close> is not what
  \<open>FindAllString\<close> returns. The counter \<open>k\<close> is the number of characters still
  covered by the last match.
\<close>

fun FindAllFrom :: "string \<Rightarrow> nat \<Rightarrow> string \<Rightarrow> string list" where
  "FindAllFrom name k [] = []"
| "FindAllFrom name (Suc k) (c # cs) = FindAllFrom name k cs"
| "FindAllFrom name 0 (c # cs) =
     (case matchMarker name (c # cs) of
        None \<Rightarrow> FindAllFrom name 0 cs
      | Some m \<Rightarrow> m # FindAllFrom name (length m - 1) cs)"

definition FindAllString :: "string \<Rightarrow> string \<Rightarrow> string list" where
  "FindAllString name s = FindAllFrom name 0 s"

text \<open>
  \<open>base64.StdEncoding.DecodeString\<close> of Go's standard library: the alphabet
  \<open>A-Z a-z 0-9 + /\<close>, padding with \<open>=\<close>, line feeds and carriage returns skipped.
  It returns the bytes decoded so far together with the error.
\<close>

definition decodeMap :: "char \<Rightarrow> nat option" where
  "decodeMap c =
     (let n = (of_char c :: nat) in
      if 65 \<le> n \<and> n \<le> 90 then Some (n - 65)
      else if 97 \<le> n \<and> n \<le> 122 then Some (n - 71)
      else if 48 \<le> n \<and> n \<le> 57 then Some (n + 4)
      else if n = 43 then Some 62
      else if n = 47 then Some 63
      else None)"

text \<open>A quantum of \<open>dlen\<close> six-bit values gives \<open>dlen - 1\<close> bytes.\<close>

definition quantumBytes :: "nat list \<Rightarrow> bytes" where
  "quantumBytes dbuf =
     (let val = foldl (\<lambda>v d. v * 64 + d) 0 (take 4 (dbuf @ [0, 0, 0, 0]))
      in take (length dbuf - 1) [of_nat (val div 65536), of_nat (val div 256), of_nat val])"

fun skipNewlines :: "string \<Rightarrow> string" where
  "skipNewlines [] = []"
| "skipNewlines (c # cs) =
     (if c = CHR 0x0A \<or> c = CHR 0x0D then skipNewlines cs else c # cs)"

text \<open>
  The decoding loop: the rest of the input and the six-bit values of the quantum being
  read; the result is the bytes and whether the input was corrupt.
\<close>

fun decodeFrom :: "string \<Rightarrow> nat list \<Rightarrow> bytes \<times> bool" where
  "decodeFrom [] dbuf = ([], dbuf \<noteq> [])"
| "decodeFrom (c # cs) dbuf =
     (case decodeMap c of
        Some d \<Rightarrow>
          if length dbuf = 3 then
            (case decodeFrom cs [] of (out, bad) \<Rightarrow> (quantumBytes (dbuf @ [d]) @ out, bad))
          else decodeFrom cs (dbuf @ [d])
      | None \<Rightarrow>
          if c = CHR 0x0A \<or> c = CHR 0x0D then decodeFrom cs dbuf
          else if c \<noteq> CHR ''='' then ([], True)
          else if length dbuf < 2 then ([], True)
          else if length dbuf = 2 then
            (case skipNewlines cs of
               [] \<Rightarrow> ([], True)
             | c' # cs' \<Rightarrow>
                 if c' \<noteq> CHR ''='' then ([], True)
                 else (quantumBytes dbuf, skipNewlines cs' \<noteq> []))
          else (quantumBytes dbuf, skipNewlines cs \<noteq> []))"

definition DecodeString :: "string \<Rightarrow> bytes \<times> error option" where
  "DecodeString s =
     (case decodeFrom s [] of (out, bad) \<Rightarrow> (out, if bad then Some CorruptInputError else None))"

text \<open>
  \<open>parseInfoFromComments\<close> returns its four named results \<open>PubKey\<close>, \<open>Signature\<close>,
  \<open>TransactionBytes\<close> and \<open>err\<close> (here \<open>pk\<close>, \<open>sg\<close>, \<open>tx\<close>, \<open>err\<close>), in this order.
  Every \<open>return\<close> of the function is a bare one: it returns what the four hold at that
  moment, and \<open>Signature, err = DecodeString(...)\<close> assigns both results of the decoder.
\<close>

definition parseInfoFromComments ::
  "QueryParsed \<Rightarrow> bytes \<times> bytes \<times> bytes \<times> error option" where
  "parseInfoFromComments qp =
     (let pk = []; sg = []; tx = [];
          comments = GetComments (Structure qp)
      in
      if length comments = 0 then (pk, sg, tx, None)
      else
        let comment = hd comments;
            s = FindAllString ''SIGN'' comment;
            (sg, err) = (if length s = 2 then DecodeString (s ! 1) else (sg, None))
        in
        if err \<noteq> None then (pk, sg, tx, err)
        else
          let s = FindAllString ''DATA'' comment;
              (tx, err) = (if length s = 2 then DecodeString (s ! 1) else (tx, None))
          in
          if err \<noteq> None then (pk, sg, tx, err)
          else
            let s = FindAllString ''PUBKEY'' comment;
                (pk, err) = (if length s = 2 then DecodeString (s ! 1) else (pk, None))
            in (pk, sg, tx, err))"

section \<open>Package nodeclient: the network client\<close>

subsection \<open>Data and what the client takes from outside\<close>

text \<open>\<open>netlib.NodeAddr\<close>: a host name and a port, a Go \<open>int\<close>.\<close>

record NodeAddr =
  Host :: string
  Port :: int

text \<open>
  Of \<open>NodeClient\<close> the functions below read the node's own address and the
  authorization string; \<open>DataDir\<close>, \<open>Address\<close>, \<open>Logger\<close> and \<open>NodeNet\<close> play no part in
  them (the logger only writes log lines).
\<close>

record NodeClient =
  NodeAddress :: NodeAddr
  NodeAuthStr :: string

text \<open>
  Package \<open>lib/net\<close> (\<open>netlib\<close>) is not among the files. Its functions that the client
  calls are parameters of the model: \<open>CommandToBytes\<close> (the fixed-width identifier of a
  command name), \<open>GobEncode\<close> (the payload bytes of a value of type \<open>'d\<close>, or an error)
  and \<open>NodeAddrToString\<close>.
\<close>

record 'd netlib =
  CommandToBytes :: "string \<Rightarrow> bytes"
  GobEncode :: "'d \<Rightarrow> bytes \<times> error option"
  NodeAddrToString :: "NodeAddr \<Rightarrow> string"

text \<open>
  \<open>encoding/gob\<close> of the standard library, a parameter as well: \<open>dec.Decode(&payload)\<close>
  for a string, and \<open>dec.Decode(datapayload)\<close> into the caller's value of type \<open>'r\<close>.
  Each returns what the target holds afterwards and the error, by its message.
\<close>

record 'r gob =
  GobDecodeString :: "bytes \<Rightarrow> string \<times> string option"
  GobDecode :: "bytes \<Rightarrow> 'r \<Rightarrow> 'r \<times> string option"

text \<open>
  What the network does during one call: the error of dialing, the error of
  \<open>io.Copy\<close> to the connection, and the result of \<open>ioutil.ReadAll\<close>, which reads until
  the peer closes the connection and returns the bytes read and the error.
\<close>

record network =
  dial_error :: "string option"
  copy_error :: "string option"
  read_all :: "bytes \<times> string option"

subsection \<open>Checking an address\<close>

definition CheckNodeAddress :: "NodeAddr \<Rightarrow> error option" where
  "CheckNodeAddress address =
     (if Port address < 1024 then Some (Error ''Node Address Port has wrong value'')
      else if Port address > 65536 then Some (Error ''Node Address Port has wrong value'')
      else if Host address = [] then Some (Error ''Node Address Host has wrong value'')
      else None)"

subsection \<open>Building a request\<close>

text \<open>\<open>binary.LittleEndian.PutUint32\<close> and \<open>binary.LittleEndian.Uint32\<close>.\<close>

definition PutUint32 :: "32 word \<Rightarrow> bytes" where
  "PutUint32 v = [ucast v, ucast (drop_bit 8 v), ucast (drop_bit 16 v), ucast (drop_bit 24 v)]"

definition Uint32 :: "bytes \<Rightarrow> nat" where
  "Uint32 b = unat (b ! 0) + 256 * unat (b ! 1) + 65536 * unat (b ! 2) + 16777216 * unat (b ! 3)"

text \<open>
  \<open>data\<close> is \<open>None\<close> for Go's \<open>nil\<close>. \<open>uint32(len(payload))\<close> keeps the low 32 bits of
  the length, as \<open>of_nat\<close> into \<open>32 word\<close> does.
\<close>

definition doBuildCommandData ::
  "'d netlib \<Rightarrow> string \<Rightarrow> 'd option \<Rightarrow> bytes \<Rightarrow> bytes \<times> error option" where
  "doBuildCommandData lib command data extra =
     (let (payload, err) = (case data of Some d \<Rightarrow> GobEncode lib d | None \<Rightarrow> ([], None)) in
      if err \<noteq> None then ([], err)
      else
        let payloadlength = (of_nat (length payload) :: 32 word);
            bs = PutUint32 payloadlength;
            request = CommandToBytes lib command @ bs;
            payloadlength = (of_nat (length extra) :: 32 word);
            bs = PutUint32 payloadlength;
            request = request @ bs;
            request = request @ payload;
            request = (if length extra > 0 then request @ extra else request)
        in (request, None))"

definition BuildCommandData ::
  "'d netlib \<Rightarrow> string \<Rightarrow> 'd option \<Rightarrow> bytes \<times> error option" where
  "BuildCommandData lib command data = doBuildCommandData lib command data []"

definition BuildCommandDataWithAuth ::
  "'d netlib \<Rightarrow> NodeClient \<Rightarrow> string \<Rightarrow> 'd option \<Rightarrow> bytes \<times> error option" where
  "BuildCommandDataWithAuth lib c command data =
     (let authbytes = CommandToBytes lib (NodeAuthStr c)
      in doBuildCommandData lib command data authbytes)"

subsection \<open>Sending\<close>

definition SendData :: "'d netlib \<Rightarrow> network \<Rightarrow> NodeAddr \<Rightarrow> bytes \<Rightarrow> error option" where
  "SendData lib net addr data =
     (case CheckNodeAddress addr of
        Some err \<Rightarrow> Some err
      | None \<Rightarrow>
          (case dial_error net of
             Some e \<Rightarrow> Some (CanNotConnectError (NodeAddrToString lib addr @ '' is not available''))
           | None \<Rightarrow>
               (case copy_error net of
                  Some e \<Rightarrow> Some (CanNotSendError e)
                | None \<Rightarrow> None)))"

text \<open>
  \<open>datapayload\<close> is \<open>None\<close> for \<open>nil\<close>, else the value the caller's pointer refers to.
  The result is the error and the value behind \<open>datapayload\<close> after the call.
\<close>

definition SendDataWaitResponse ::
  "'d netlib \<Rightarrow> 'r gob \<Rightarrow> network \<Rightarrow> NodeAddr \<Rightarrow> bytes \<Rightarrow> 'r option \<Rightarrow> error option \<times> 'r option"
  where
  "SendDataWaitResponse lib dec net addr data datapayload =
     (case CheckNodeAddress addr of
        Some err \<Rightarrow> (Some err, datapayload)
      | None \<Rightarrow>
      (case dial_error net of
         Some e \<Rightarrow>
           (Some (CanNotConnectError (NodeAddrToString lib addr @ '' is not available'')),
            datapayload)
       | None \<Rightarrow>
       (case copy_error net of
          Some e \<Rightarrow> (Some (Error e), datapayload)
        | None \<Rightarrow>
        (case read_all net of
           (response, Some e) \<Rightarrow> (Some (CanNotSendError e), datapayload)
         | (response, None) \<Rightarrow>
         (case response of
            [] \<Rightarrow>
              (Some (NoResponseError
                 ''Received 0 bytes as a response. Expected at least 1 byte''), datapayload)
          | status # body \<Rightarrow>
              if status \<noteq> 1 then
                (case GobDecodeString dec body of
                   (payload, Some e) \<Rightarrow> (Some (CanNotParseResponseError e), datapayload)
                 | (payload, None) \<Rightarrow> (Some (Error payload), datapayload))
              else
                (case datapayload of
                   None \<Rightarrow> (None, None)
                 | Some target \<Rightarrow>
                     (case GobDecode dec body target of
                        (v, Some e) \<Rightarrow> (Some (CanNotParseResponseError e), Some v)
                      | (v, None) \<Rightarrow> (None, Some v))))))))"

subsection \<open>The receiving side, from the spec\<close>

text \<open>
  Modelled from the spec: the decoder of the command envelope, which is not among the
  files (the client only builds requests). The spec gives the layout
  \<open>[command: fixed-width bytes][payloadLen: u32 LE][extraLen: u32 LE][payload: payloadLen
  bytes][extra: extraLen bytes]\<close> and says that "decoding is the exact inverse and must
  reject envelopes shorter than the fixed header size". \<open>W\<close> is the width of the
  identifier and \<open>btc\<close> reads a command name back from an identifier.
\<close>

definition decodeEnvelope ::
  "nat \<Rightarrow> (bytes \<Rightarrow> string) \<Rightarrow> bytes \<Rightarrow> (string \<times> bytes \<times> bytes) option" where
  "decodeEnvelope W btc request =
     (if length request < W + 8 then None
      else
        let command = btc (take W request);
            payloadLen = Uint32 (take 4 (drop W request));
            extraLen = Uint32 (take 4 (drop (W + 4) request));
            body = drop (W + 8) request
        in Some (command, take payloadLen body, take extraLen (drop payloadLen body)))"

subsection \<open>Instances for evaluation\<close>

text \<open>
  Modelled from the spec: \<open>netlib.CommandToBytes\<close> and its inverse, of which the spec
  says that "the command name is serialized into a fixed-width identifier". The spec
  gives neither the width nor the filling. \<open>CommandToBytesW W\<close> is the identifier of
  width \<open>W\<close> that fills the name with zero bytes, and \<open>BytesToCommand12\<close> reads a name
  back by dropping the zero bytes, whatever the width. \<open>CommandToBytes12\<close> is the
  identifier of width 12, which serves to evaluate the functions on concrete inputs.
\<close>

definition CommandToBytesW :: "nat \<Rightarrow> string \<Rightarrow> bytes" where
  "CommandToBytesW W command = StringToBytes command @ replicate (W - length command) 0"

definition CommandLength :: nat where
  "CommandLength = 12"

definition CommandToBytes12 :: "string \<Rightarrow> bytes" where
  "CommandToBytes12 command =
     StringToBytes command @ replicate (CommandLength - length command) 0"

definition BytesToCommand12 :: "bytes \<Rightarrow> string" where
  "BytesToCommand12 b = map (\<lambda>x. char_of (unat x)) (filter (\<lambda>x. x \<noteq> 0) b)"

text \<open>
  An instance of the outside world: the payload is given as the bytes it encodes to,
  the decoders read the body as the text or the bytes themselves and fail on an empty
  body.
\<close>

definition exampleLib :: "bytes netlib" where
  "exampleLib =
     \<lparr>CommandToBytes = CommandToBytes12,
      GobEncode = (\<lambda>d. (d, None)),
      NodeAddrToString = (\<lambda>a. Host a)\<rparr>"

definition exampleGob :: "bytes gob" where
  "exampleGob =
     \<lparr>GobDecodeString =
        (\<lambda>b. (map (\<lambda>x. char_of (unat x)) b, if b = [] then Some ''EOF'' else None)),
      GobDecode = (\<lambda>b target. if b = [] then (target, Some ''EOF'') else (b, None))\<rparr>"

definition exampleAddr :: NodeAddr where
  "exampleAddr = \<lparr>Host = ''localhost'', Port = 20000\<rparr>"

text \<open>A payload of \<open>2 ^ 32\<close> zero bytes.\<close>

definition hugePayload :: bytes where
  "hugePayload = replicate (2 ^ 32) 0"

text \<open>A query for evaluation: an insert into \<open>users\<close> with key \<open>id\<close> and key value \<open>a'b\<close>.\<close>

definition exampleQuery :: "QueryKind \<Rightarrow> string list \<Rightarrow> QueryParsed" where
  "exampleQuery kind comments =
     \<lparr>SQL = [], PubKey = [], Signature = [], TransactionBytes = [],
      KeyCol = ''id'', KeyVal = [CHR ''a'', CHR 0x27, CHR ''b''],
      RowBeforeQuery = Map.empty,
      Structure = \<lparr>GetKind = kind, GetTable = ''users'', GetComments = comments\<rparr>\<rparr>"

section \<open>Properties of the parsed query\<close>

subsection \<open>The decoders on the values of the markers\<close>

lemma FindAllString_sign_once:
  "FindAllString ''SIGN'' ''SIGN:c2lnbmF0dXJl;DATA:ZGF0YQ==;PUBKEY:cHVia2V5;'' =
   [''SIGN:c2lnbmF0dXJl;'']"
  by (simp add: FindAllString_def matchMarker_def)

lemma DecodeString_signature:
  "DecodeString ''c2lnbmF0dXJl'' = (StringToBytes ''signature'', None)"
  by (simp add: DecodeString_def decodeMap_def quantumBytes_def StringToBytes_def)

lemma DecodeString_data:
  "DecodeString ''ZGF0YQ=='' = (StringToBytes ''data'', None)"
  by (simp add: DecodeString_def decodeMap_def quantumBytes_def StringToBytes_def)

lemma DecodeString_pubkey:
  "DecodeString ''cHVia2V5'' = (StringToBytes ''pubkey'', None)"
  by (simp add: DecodeString_def decodeMap_def quantumBytes_def StringToBytes_def)

text \<open>
  A marker that stands twice in the comment is the only way to reach the decoder. What
  is decoded then is the second whole match, \<open>SIGN:b;\<close>: the decoder reads \<open>SIGN\<close> as
  three bytes, stops at the colon, and the three bytes are returned with the error.
\<close>

lemma parseInfoFromComments_marker_twice:
  "parseInfoFromComments
     (qp\<lparr>Structure := (Structure qp)\<lparr>GetComments := ''SIGN:a;SIGN:b;'' # rest\<rparr>\<rparr>) =
   ([], [0x48, 0x81, 0x8D], [], Some CorruptInputError)"
  by (simp add: parseInfoFromComments_def FindAllString_def matchMarker_def DecodeString_def
      decodeMap_def quantumBytes_def)

text \<open>
  Every text that \<open>FindAllString\<close> returns ends in the semicolon of the expression, and
  the decoder fails on a semicolon. So whenever a value is given to the decoder the
  function returns an error, and a result without an error carries no value at all.
\<close>

lemma matchMarker_semicolon:
  "matchMarker name s = Some m \<Longrightarrow> CHR '';'' \<in> set m"
  by (auto simp: matchMarker_def Let_def split: if_splits)

lemma FindAllFrom_semicolon:
  "m \<in> set (FindAllFrom name k s) \<Longrightarrow> CHR '';'' \<in> set m"
  by (induction name k s rule: FindAllFrom.induct)
    (auto split: option.splits dest: matchMarker_semicolon)

lemma skipNewlines_keeps:
  "CHR '';'' \<in> set s \<Longrightarrow> CHR '';'' \<in> set (skipNewlines s)"
  by (induction s) auto

lemma decodeMap_semicolon: "decodeMap CHR '';'' = None"
  by (simp add: decodeMap_def)

lemma decodeFrom_semicolon:
  "CHR '';'' \<in> set s \<Longrightarrow> snd (decodeFrom s dbuf)"
proof (induction s arbitrary: dbuf)
  case Nil
  then show ?case by simp
next
  case (Cons c cs)
  show ?case
  proof (cases "c = CHR '';''")
    case True
    then show ?thesis by (simp add: decodeMap_semicolon)
  next
    case False
    with Cons.prems have in_cs: "CHR '';'' \<in> set cs" by simp
    have ih: "\<And>d. snd (decodeFrom cs d)" using Cons.IH [OF in_cs] .
    have sk: "CHR '';'' \<in> set (skipNewlines cs)" using in_cs by (rule skipNewlines_keeps)
    show ?thesis
    proof (cases "decodeMap c")
      case (Some d)
      then show ?thesis using ih [of "[]"] ih [of "dbuf @ [d]"]
        by (auto split: prod.splits)
    next
      case None
      show ?thesis
      proof (cases "skipNewlines cs")
        case Nil
        with sk show ?thesis by simp
      next
        case (Cons c' cs')
        with sk have "c' = CHR '';'' \<or> CHR '';'' \<in> set cs'" by auto
        then have "c' \<noteq> CHR ''='' \<or> skipNewlines cs' \<noteq> []"
          using skipNewlines_keeps [of cs'] by auto
        then show ?thesis using None Cons ih [of dbuf] by auto
      qed
    qed
  qed
qed

lemma DecodeString_semicolon:
  "CHR '';'' \<in> set s \<Longrightarrow> snd (DecodeString s) = Some CorruptInputError"
  using decodeFrom_semicolon [of s "[]"]
  by (cases "decodeFrom s []") (simp add: DecodeString_def)

lemma DecodeString_second_match:
  assumes "length (FindAllString name comment) = 2"
  shows "snd (DecodeString (FindAllString name comment ! 1)) = Some CorruptInputError"
proof -
  have "FindAllString name comment ! 1 \<in> set (FindAllString name comment)"
    using assms by simp
  then show ?thesis
    by (auto simp: FindAllString_def intro!: DecodeString_semicolon dest: FindAllFrom_semicolon)
qed

lemma parseInfoFromComments_never_extracts:
  assumes "parseInfoFromComments qp = (pk, sg, tx, None)"
  shows "pk = [] \<and> sg = [] \<and> tx = []"
proof (cases "GetComments (Structure qp)")
  case Nil
  with assms show ?thesis by (simp add: parseInfoFromComments_def)
next
  case (Cons comment rest)
  have d: "\<And>name. length (FindAllString name comment) = 2 \<Longrightarrow>
      snd (DecodeString (FindAllString name comment ! 1)) = Some CorruptInputError"
    by (rule DecodeString_second_match)
  show ?thesis
    using assms Cons d [of "''SIGN''"] d [of "''DATA''"] d [of "''PUBKEY''"]
    by (auto simp: parseInfoFromComments_def Let_def split: if_splits prod.splits)
qed

text \<open>
  The part of C2 that holds: with no comment at all, or with a first comment in which
  none of \<open>SIGN:\<close>, \<open>DATA:\<close> and \<open>PUBKEY:\<close> stands, the three results are empty and
  there is no error.
\<close>

lemma matchMarker_None:
  "take (Suc (length name)) s \<noteq> name @ '':'' \<Longrightarrow> matchMarker name s = None"
  by (simp add: matchMarker_def)

lemma FindAllFrom_no_marker:
  "(\<forall>i. take (Suc (length name)) (drop i s) \<noteq> name @ '':'') \<Longrightarrow> FindAllFrom name k s = []"
proof (induction s arbitrary: k)
  case Nil
  then show ?case by simp
next
  case (Cons c cs)
  have rest: "\<forall>i. take (Suc (length name)) (drop i cs) \<noteq> name @ '':''"
  proof
    fix i
    show "take (Suc (length name)) (drop i cs) \<noteq> name @ '':''"
      using Cons.prems [rule_format, of "Suc i"] by simp
  qed
  have first: "matchMarker name (c # cs) = None"
    using Cons.prems [rule_format, of 0] by (intro matchMarker_None) simp
  show ?case
    using Cons.IH [OF rest] first by (cases k) simp_all
qed

lemma parseInfoFromComments_no_comments:
  "GetComments (Structure qp) = [] \<Longrightarrow> parseInfoFromComments qp = ([], [], [], None)"
  by (simp add: parseInfoFromComments_def)

lemma parseInfoFromComments_no_markers:
  assumes "GetComments (Structure qp) = comment # rest"
    and "\<forall>i. take 5 (drop i comment) \<noteq> ''SIGN:''"
    and "\<forall>i. take 5 (drop i comment) \<noteq> ''DATA:''"
    and "\<forall>i. take 7 (drop i comment) \<noteq> ''PUBKEY:''"
  shows "parseInfoFromComments qp = ([], [], [], None)"
proof -
  have "FindAllString ''SIGN'' comment = []" "FindAllString ''DATA'' comment = []"
    "FindAllString ''PUBKEY'' comment = []"
    using assms(2-4) FindAllFrom_no_marker [of "''SIGN''" comment 0]
      FindAllFrom_no_marker [of "''DATA''" comment 0]
      FindAllFrom_no_marker [of "''PUBKEY''" comment 0]
    by (simp_all add: FindAllString_def eval_nat_numeral)
  then show ?thesis
    using assms(1) by (simp add: parseInfoFromComments_def)
qed

subsection \<open>Claims\<close>

text \<open>
  C2 (envelope extraction), evaluated on the comment of the claim. For every query whose
  first comment is \<open>SIGN:c2lnbmF0dXJl;DATA:ZGF0YQ==;PUBKEY:cHVia2V5;\<close> the function
  returns three empty byte sequences and no error: each expression matches once, the
  test \<open>len(s) == 2\<close> fails, and nothing is decoded. The claim expects the bytes of
  \<open>signature\<close>, \<open>data\<close> and \<open>pubkey\<close>.
\<close>

theorem parseInfoFromComments_markers_empty:
  "parseInfoFromComments
     (qp\<lparr>Structure := (Structure qp)
        \<lparr>GetComments := ''SIGN:c2lnbmF0dXJl;DATA:ZGF0YQ==;PUBKEY:cHVia2V5;'' # rest\<rparr>\<rparr>) =
   ([], [], [], None)"
  by (simp add: parseInfoFromComments_def FindAllString_def matchMarker_def)

text \<open>
  C3 (rollback synthesis). For a Create the rollback is \<open>DROP TABLE <table>\<close>; for an
  Insert it is \<open>DELETE FROM <table> WHERE <keyColumn>='<quoted keyValue>'\<close>, with no
  blank around the equals sign; for a Drop, an Update and a Delete it is the empty text;
  the error is \<open>nil\<close> in all of them.
\<close>

theorem buildRollbackSQL_kinds:
  "(GetKind (Structure qp) = QueryKindCreate \<longrightarrow>
      buildRollbackSQL qp = (''DROP TABLE '' @ GetTable (Structure qp), None)) \<and>
   (GetKind (Structure qp) = QueryKindInsert \<longrightarrow>
      buildRollbackSQL qp =
        (''DELETE FROM '' @ GetTable (Structure qp) @ '' WHERE '' @ KeyCol qp @ ''='' @
           [CHR 0x27] @ Quote (KeyVal qp) @ [CHR 0x27], None)) \<and>
   (GetKind (Structure qp) \<in> {QueryKindDrop, QueryKindUpdate, QueryKindDelete} \<longrightarrow>
      buildRollbackSQL qp = ([], None))"
  by (auto simp: buildRollbackSQL_def)

text \<open>
  The witness of C3: table \<open>users\<close>, key column \<open>id\<close>, key value \<open>a'b\<close>. The Insert gives
  \<open>DELETE FROM users WHERE id='a\'b'\<close> (\<open>CHR 0x27\<close> is the quote, \<open>CHR 0x5C\<close> the
  backslash).
\<close>

theorem buildRollbackSQL_kinds_witness:
  "buildRollbackSQL (exampleQuery QueryKindCreate []) = (''DROP TABLE users'', None) \<and>
   buildRollbackSQL (exampleQuery QueryKindInsert []) =
     (''DELETE FROM users WHERE id='' @ [CHR 0x27] @ ''a'' @ [CHR 0x5C, CHR 0x27] @ ''b'' @
        [CHR 0x27], None) \<and>
   buildRollbackSQL (exampleQuery QueryKindDrop []) = ([], None) \<and>
   buildRollbackSQL (exampleQuery QueryKindUpdate []) = ([], None) \<and>
   buildRollbackSQL (exampleQuery QueryKindDelete []) = ([], None)"
  using buildRollbackSQL_kinds [of "exampleQuery QueryKindCreate []"]
        buildRollbackSQL_kinds [of "exampleQuery QueryKindInsert []"]
        buildRollbackSQL_kinds [of "exampleQuery QueryKindDrop []"]
        buildRollbackSQL_kinds [of "exampleQuery QueryKindUpdate []"]
        buildRollbackSQL_kinds [of "exampleQuery QueryKindDelete []"]
  by (simp add: exampleQuery_def Quote_def)

text \<open>
  C4 (no error on a value that does not decode), evaluated on a comment with one marker.
  \<open>!!!!\<close> is not base64, and for every query whose first comment is \<open>SIGN:!!!!;\<close> the
  function returns no error: the expression matches once, so the value is never given
  to the decoder.
\<close>

theorem parseInfoFromComments_bad_value_no_error:
  "snd (DecodeString ''!!!!'') = Some CorruptInputError \<and>
   parseInfoFromComments
     (qp\<lparr>Structure := (Structure qp)\<lparr>GetComments := ''SIGN:!!!!;'' # rest\<rparr>\<rparr>) =
   ([], [], [], None)"
  by (simp add: parseInfoFromComments_def FindAllString_def matchMarker_def DecodeString_def
      decodeMap_def)

text \<open>
  C5 (classification), as the code has it: \<open>IsUpdate\<close> holds exactly for the kinds
  Create, Drop, Delete, Insert and Update, \<open>IsSelect\<close> holds exactly for the kind
  Select, and no query is both.
\<close>

theorem IsUpdate_IsSelect_kinds:
  "(IsUpdate qp \<longleftrightarrow>
      GetKind (Structure qp) \<in>
        {QueryKindCreate, QueryKindDrop, QueryKindDelete, QueryKindInsert, QueryKindUpdate}) \<and>
   (IsSelect qp \<longleftrightarrow> GetKind (Structure qp) = QueryKindSelect) \<and>
   \<not> (IsSelect qp \<and> IsUpdate qp)"
  by (auto simp: IsUpdate_def IsSelect_def)

text \<open>
  The counterexample of C5 as the claim states it: a query of a kind outside the six
  named ones is not an update, and it is not a select either.
\<close>

theorem IsSelect_other_kind_counterexample:
  "\<not> IsUpdate (exampleQuery (QueryKindOther ''show'') []) \<and>
   \<not> IsSelect (exampleQuery (QueryKindOther ''show'') [])"
  by (simp add: IsUpdate_def IsSelect_def exampleQuery_def)

text \<open>
  C10 (rollback synthesis cannot fail): for every query the error that
  \<open>buildRollbackSQL\<close> returns is \<open>nil\<close>.
\<close>

theorem buildRollbackSQL_no_error:
  "snd (buildRollbackSQL qp) = None"
  by (simp add: buildRollbackSQL_def)

section \<open>Properties of the network client\<close>

text \<open>
  C1 (address validation), as the code has it by design: a port from 1024 to 65535 with
  a host that is not empty passes; a port below 1024 or above 65536 fails with the
  plain error \<open>Node Address Port has wrong value\<close>; an empty host with a port from 1024
  to 65535 fails with the plain error \<open>Node Address Host has wrong value\<close>; and an empty
  host with any port fails with one of these two errors. Nothing but the address is
  read.
\<close>

theorem CheckNodeAddress_ranges:
  "(1024 \<le> Port a \<and> Port a \<le> 65535 \<and> Host a \<noteq> [] \<longrightarrow> CheckNodeAddress a = None) \<and>
   (Port a < 1024 \<or> 65536 < Port a \<longrightarrow>
      CheckNodeAddress a = Some (Error ''Node Address Port has wrong value'')) \<and>
   (1024 \<le> Port a \<and> Port a \<le> 65535 \<and> Host a = [] \<longrightarrow>
      CheckNodeAddress a = Some (Error ''Node Address Host has wrong value'')) \<and>
   (Host a = [] \<longrightarrow>
      CheckNodeAddress a = Some (Error ''Node Address Port has wrong value'') \<or>
      CheckNodeAddress a = Some (Error ''Node Address Host has wrong value''))"
  by (auto simp: CheckNodeAddress_def)

theorem CheckNodeAddress_ranges_witness:
  "CheckNodeAddress \<lparr>Host = ''localhost'', Port = 65535\<rparr> = None \<and>
   CheckNodeAddress \<lparr>Host = ''localhost'', Port = 0\<rparr> =
     Some (Error ''Node Address Port has wrong value'') \<and>
   CheckNodeAddress \<lparr>Host = ''localhost'', Port = 65537\<rparr> =
     Some (Error ''Node Address Port has wrong value'') \<and>
   CheckNodeAddress \<lparr>Host = [], Port = 2000\<rparr> =
     Some (Error ''Node Address Host has wrong value'') \<and>
   CheckNodeAddress \<lparr>Host = [], Port = 0\<rparr> =
     Some (Error ''Node Address Port has wrong value'')"
  using CheckNodeAddress_ranges [of "\<lparr>Host = ''localhost'', Port = 65535\<rparr>"]
        CheckNodeAddress_ranges [of "\<lparr>Host = ''localhost'', Port = 0\<rparr>"]
        CheckNodeAddress_ranges [of "\<lparr>Host = ''localhost'', Port = 65537\<rparr>"]
        CheckNodeAddress_ranges [of "\<lparr>Host = [], Port = 2000\<rparr>"]
        CheckNodeAddress_ranges [of "\<lparr>Host = [], Port = 0\<rparr>"]
  by simp

text \<open>
  The counterexample of C1 as the claim states it: port 1024 with a host passes the
  check.
\<close>

theorem CheckNodeAddress_port_1024_counterexample:
  "CheckNodeAddress \<lparr>Host = ''localhost'', Port = 1024\<rparr> = None"
  by (simp add: CheckNodeAddress_def)

subsection \<open>The length fields\<close>

lemma length_PutUint32: "length (PutUint32 v) = 4"
  by (simp add: PutUint32_def)

lemma unat_byte:
  "unat (ucast (drop_bit k (v :: 32 word)) :: byte) = (unat v div 2 ^ k) mod 256"
  by (simp only: unsigned_ucast_eq unat_drop_bit_eq) (simp add: drop_bit_eq_div take_bit_eq_mod)

lemma unat_byte0: "unat (ucast (v :: 32 word) :: byte) = unat v mod 256"
  by (simp add: unsigned_ucast_eq take_bit_eq_mod)

lemma split_bytes:
  fixes n :: nat
  assumes "n < 4294967296"
  shows "n mod 256 + 256 * (n div 256 mod 256) + 65536 * (n div 65536 mod 256) +
      16777216 * (n div 16777216 mod 256) = n"
proof -
  have a: "n mod 65536 = 256 * (n div 256 mod 256) + n mod 256"
    using mod_mult2_eq [of n 256 256] by simp
  have b: "n mod 16777216 = 65536 * (n div 65536 mod 256) + n mod 65536"
    using mod_mult2_eq [of n 65536 256] by simp
  have c: "n mod 4294967296 = 16777216 * (n div 16777216 mod 256) + n mod 16777216"
    using mod_mult2_eq [of n 16777216 256] by simp
  have "n mod 4294967296 = n" using assms by simp
  with a b c show ?thesis by linarith
qed

text \<open>Reading the four bytes back gives the 32-bit value.\<close>

lemma Uint32_PutUint32: "Uint32 (PutUint32 v) = unat v"
proof -
  have b: "unat v < 4294967296"
    using unsigned_less [of v, where ?'a = nat] by simp
  have "Uint32 (PutUint32 v) =
      unat v mod 256 + 256 * (unat v div 256 mod 256) + 65536 * (unat v div 65536 mod 256) +
      16777216 * (unat v div 16777216 mod 256)"
    using unat_byte [of 8 v] unat_byte [of 16 v] unat_byte [of 24 v]
    by (simp add: Uint32_def PutUint32_def unat_byte0)
  also have "\<dots> = unat v"
    using b by (rule split_bytes)
  finally show ?thesis .
qed

lemma unat_of_nat32: "unat (of_nat n :: 32 word) = n mod 4294967296"
  by (simp add: unat_of_nat)

lemma length_hugePayload: "length hugePayload = 4294967296"
  by (simp add: hugePayload_def)

lemma of_nat_length_hugePayload: "(of_nat (length hugePayload) :: 32 word) = 0"
  by (simp add: length_hugePayload)

subsection \<open>The request\<close>

text \<open>
  \<open>payload\<close> is what the data encodes to: nothing for \<open>nil\<close>, else the bytes that
  \<open>GobEncode\<close> returns without an error.
\<close>

lemma doBuildCommandData_layout:
  assumes "(case data of None \<Rightarrow> ([], None) | Some d \<Rightarrow> GobEncode lib d) = (payload, None)"
  shows "doBuildCommandData lib command data extra =
     (CommandToBytes lib command @ PutUint32 (of_nat (length payload)) @
        PutUint32 (of_nat (length extra)) @ payload @ extra, None)"
  using assms by (cases data) (auto simp: doBuildCommandData_def Let_def)

lemma CommandToBytes12_addr:
  "CommandToBytes12 ''addr'' = [97, 100, 100, 114, 0, 0, 0, 0, 0, 0, 0, 0]"
  by code_simp

lemma BytesToCommand12_addr: "BytesToCommand12 (CommandToBytes12 ''addr'') = ''addr''"
  by code_simp

lemma BytesToCommand12_addr_bytes:
  "BytesToCommand12 [97, 100, 100, 114, 0, 0, 0, 0, 0, 0, 0, 0] = ''addr''"
  using BytesToCommand12_addr by (simp add: CommandToBytes12_addr)

text \<open>
  C6 (wire framing layout), as the code has it: the request is the identifier of the
  command, four bytes, four bytes, the payload and the extra bytes (appending the extra
  bytes only when there are some gives the same bytes). The first four bytes read
  back, little-endian, as the length of the payload modulo \<open>2 ^ 32\<close>, the second four as
  the length of the extra bytes modulo \<open>2 ^ 32\<close>.
\<close>

theorem doBuildCommandData_request_layout:
  assumes "(case data of None \<Rightarrow> ([], None) | Some d \<Rightarrow> GobEncode lib d) = (payload, None)"
  shows "doBuildCommandData lib command data extra =
     (CommandToBytes lib command @ PutUint32 (of_nat (length payload)) @
        PutUint32 (of_nat (length extra)) @ payload @ extra, None) \<and>
     length (PutUint32 (of_nat (length payload))) = 4 \<and>
     length (PutUint32 (of_nat (length extra))) = 4 \<and>
     Uint32 (PutUint32 (of_nat (length payload))) = length payload mod 2 ^ 32 \<and>
     Uint32 (PutUint32 (of_nat (length extra))) = length extra mod 2 ^ 32"
  using doBuildCommandData_layout [OF assms]
  by (simp add: length_PutUint32 Uint32_PutUint32 unat_of_nat32)

theorem doBuildCommandData_request_layout_witness:
  "doBuildCommandData exampleLib ''addr'' (Some [7, 8, 9]) [5] =
     ([97, 100, 100, 114, 0, 0, 0, 0, 0, 0, 0, 0] @ [3, 0, 0, 0] @ [1, 0, 0, 0] @
        [7, 8, 9] @ [5], None) \<and>
   Uint32 [3, 0, 0, 0] = 3 \<and> Uint32 [1, 0, 0, 0] = 1"
  using doBuildCommandData_request_layout
    [where data = "Some [7, 8, 9]" and lib = exampleLib and payload = "[7, 8, 9]"
      and command = "''addr''" and extra = "[5]"]
  by (simp add: exampleLib_def CommandToBytes12_addr PutUint32_def)

text \<open>
  The counterexample of C6 as the claim states it: for a payload of \<open>2 ^ 32\<close> bytes the
  four bytes of the payload length are zero, which encode 0 and not the length.
\<close>

theorem doBuildCommandData_length_wraps_counterexample:
  "fst (doBuildCommandData exampleLib ''addr'' (Some hugePayload) []) =
     CommandToBytes12 ''addr'' @ [0, 0, 0, 0] @ [0, 0, 0, 0] @ hugePayload \<and>
   Uint32 [0, 0, 0, 0] = 0 \<and> length hugePayload = 4294967296"
  using doBuildCommandData_layout [where data = "Some hugePayload" and lib = exampleLib
      and payload = hugePayload and command = "''addr''" and extra = "[]"]
  by (simp add: exampleLib_def of_nat_length_hugePayload PutUint32_def Uint32_def
      length_hugePayload)

subsection \<open>The identifier of a command\<close>

text \<open>
  A name without a zero byte comes back from its zero-filled identifier, and a name
  that fits the width gets an identifier of exactly that width.
\<close>

lemma byte_of_char_unat: "unat (of_nat (of_char c) :: byte) = of_char c"
  by (simp add: unat_of_nat)

lemma byte_of_char_zero: "(of_nat (of_char c) :: byte) = 0 \<longleftrightarrow> c = CHR 0x00"
proof -
  have "(of_nat (of_char c) :: byte) = 0 \<longleftrightarrow> unat (of_nat (of_char c) :: byte) = 0"
    by (simp add: unat_eq_0)
  also have "\<dots> \<longleftrightarrow> (of_char c :: nat) = of_char (CHR 0x00)"
    by (simp add: byte_of_char_unat)
  also have "\<dots> \<longleftrightarrow> c = CHR 0x00"
    by (rule of_char_eq_iff)
  finally show ?thesis .
qed

lemma BytesToCommand12_StringToBytes:
  "CHR 0x00 \<notin> set command \<Longrightarrow>
   BytesToCommand12 (StringToBytes command @ replicate n 0) = command"
  by (induction command)
    (auto simp: BytesToCommand12_def StringToBytes_def byte_of_char_zero byte_of_char_unat)

lemma BytesToCommand12_CommandToBytesW:
  "CHR 0x00 \<notin> set command \<Longrightarrow> BytesToCommand12 (CommandToBytesW W command) = command"
  by (simp add: CommandToBytesW_def BytesToCommand12_StringToBytes)

lemma length_CommandToBytesW:
  "length command \<le> W \<Longrightarrow> length (CommandToBytesW W command) = W"
  by (simp add: CommandToBytesW_def StringToBytes_def)

lemma CommandToBytes12_W: "CommandToBytes12 = CommandToBytesW 12"
  by (simp add: fun_eq_iff CommandToBytes12_def CommandToBytesW_def CommandLength_def)

lemma CommandToBytes12_zero_name:
  "CommandToBytes12 [CHR ''a'', CHR 0x00] = [97, 0, 0, 0, 0, 0, 0, 0, 0, 0, 0, 0]"
  by code_simp

lemma BytesToCommand12_zero_name:
  "BytesToCommand12 [97, 0, 0, 0, 0, 0, 0, 0, 0, 0, 0, 0] = ''a''"
  by code_simp

text \<open>
  Some restriction on the names is forced by the fixed width alone, whatever the
  filling: there are more names of at most \<open>W\<close> bytes than identifiers of \<open>W\<close> bytes, so
  no identifier of a fixed width tells all the names that fit apart.
\<close>

lemma card_names: "card {c :: string. length c \<le> W} = (\<Sum>i\<le>W. 256 ^ i)"
  using card_lists_length_le [of "UNIV :: char set" W] by (simp add: card_UNIV_char)

lemma card_identifiers: "card {b :: bytes. length b = W} = 256 ^ W"
  using card_lists_length_eq [of "UNIV :: byte set" W] by (simp add: card_word)

lemma finite_identifiers: "finite {b :: bytes. length b = W}"
  using finite_lists_length_eq [of "UNIV :: byte set" W] by simp

lemma more_names_than_identifiers:
  assumes "0 < W"
  shows "(256::nat) ^ W < (\<Sum>i\<le>W. 256 ^ i)"
proof -
  obtain n where W: "W = Suc n" using assms by (cases W) auto
  have "(1::nat) \<le> (\<Sum>i\<le>n. 256 ^ i)"
    by (induction n) simp_all
  then show ?thesis by (simp add: W)
qed

lemma no_fixed_width_identifier_injective:
  fixes ctb :: "string \<Rightarrow> bytes"
  assumes "0 < W" and len: "\<forall>c. length c \<le> W \<longrightarrow> length (ctb c) = W"
  shows "\<not> inj_on ctb {c. length c \<le> W}"
proof
  assume inj: "inj_on ctb {c. length c \<le> W}"
  have "ctb ` {c. length c \<le> W} \<subseteq> {b. length b = W}"
    using len by auto
  then have "card {c :: string. length c \<le> W} \<le> card {b :: bytes. length b = W}"
    using card_inj_on_le [OF inj _ finite_identifiers] by blast
  then show False
    using more_names_than_identifiers [OF \<open>0 < W\<close>] by (simp add: card_names card_identifiers)
qed

subsection \<open>The round trip\<close>

text \<open>
  C9 (framing round trip), against the decoder of the spec, for the identifier of any
  width \<open>W\<close> that fills the name with zero bytes: for every command name that fits
  the width and has no zero byte, and every payload and extra bytes shorter than
  \<open>2 ^ 32\<close> bytes (empty ones included), decoding the request gives back the command
  name, the payload and the extra bytes.
\<close>

theorem decodeEnvelope_doBuildCommandData:
  assumes enc: "(case data of None \<Rightarrow> ([], None) | Some d \<Rightarrow> GobEncode lib d) = (payload, None)"
    and ctb: "CommandToBytes lib = CommandToBytesW W"
    and fits: "length command \<le> W"
    and nz: "CHR 0x00 \<notin> set command"
    and p: "length payload < 2 ^ 32"
    and e: "length extra < 2 ^ 32"
  shows "decodeEnvelope W BytesToCommand12 (fst (doBuildCommandData lib command data extra)) =
     Some (command, payload, extra)"
proof -
  have up: "Uint32 (PutUint32 (of_nat (length payload))) = length payload"
    using p by (simp add: Uint32_PutUint32 unat_of_nat32)
  have ue: "Uint32 (PutUint32 (of_nat (length extra))) = length extra"
    using e by (simp add: Uint32_PutUint32 unat_of_nat32)
  have W: "length (CommandToBytes lib command) = W"
    using fits by (simp add: ctb length_CommandToBytesW)
  have name: "BytesToCommand12 (CommandToBytes lib command) = command"
    using nz by (simp add: ctb BytesToCommand12_CommandToBytesW)
  show ?thesis
    using W name up ue
    by (simp add: doBuildCommandData_layout [OF enc] decodeEnvelope_def length_PutUint32 Let_def)
qed

theorem decodeEnvelope_doBuildCommandData_witness:
  "decodeEnvelope 12 BytesToCommand12
     (fst (doBuildCommandData exampleLib ''addr'' (Some [7, 8, 9]) [5])) =
     Some (''addr'', [7, 8, 9], [5]) \<and>
   decodeEnvelope 12 BytesToCommand12 (fst (doBuildCommandData exampleLib ''addr'' None [])) =
     Some (''addr'', [], [])"
  using decodeEnvelope_doBuildCommandData
    [where data = "Some [7, 8, 9]" and lib = exampleLib and payload = "[7, 8, 9]"
      and command = "''addr''" and W = 12 and extra = "[5]"]
    decodeEnvelope_doBuildCommandData
    [where data = None and lib = exampleLib and payload = "[]"
      and command = "''addr''" and W = 12 and extra = "[]"]
  by (simp add: exampleLib_def CommandToBytes12_W)

text \<open>
  The counterexample of C9 as the claim states it, in its two parts: the request built
  for a payload of \<open>2 ^ 32\<close> bytes decodes to an empty payload; and the command name of
  the two bytes \<open>a\<close> and zero, which fits the width, comes back as \<open>a\<close>.
\<close>

theorem decodeEnvelope_round_trip_counterexample:
  "decodeEnvelope 12 BytesToCommand12
     (fst (doBuildCommandData exampleLib ''addr'' (Some hugePayload) [])) =
     Some (''addr'', [], []) \<and>
   hugePayload \<noteq> [] \<and>
   decodeEnvelope 12 BytesToCommand12
     (fst (doBuildCommandData exampleLib [CHR ''a'', CHR 0x00] None [])) =
     Some (''a'', [], []) \<and>
   length [CHR ''a'', CHR 0x00] \<le> (12::nat)"
proof -
  have "fst (doBuildCommandData exampleLib ''addr'' (Some hugePayload) []) =
     CommandToBytes12 ''addr'' @ [0, 0, 0, 0] @ [0, 0, 0, 0] @ hugePayload"
    using doBuildCommandData_layout [where data = "Some hugePayload" and lib = exampleLib
      and payload = hugePayload and command = "''addr''" and extra = "[]"]
    by (simp add: exampleLib_def of_nat_length_hugePayload PutUint32_def)
  moreover have "length (CommandToBytes12 ''addr'') = 12"
    by (simp add: CommandToBytes12_addr)
  moreover have "hugePayload \<noteq> []"
    using length_hugePayload by auto
  ultimately have huge: "decodeEnvelope 12 BytesToCommand12
     (fst (doBuildCommandData exampleLib ''addr'' (Some hugePayload) [])) =
     Some (''addr'', [], []) \<and> hugePayload \<noteq> []"
    using BytesToCommand12_addr by (simp add: decodeEnvelope_def Uint32_def)
  have zero: "decodeEnvelope 12 BytesToCommand12
     (fst (doBuildCommandData exampleLib [CHR ''a'', CHR 0x00] None [])) = Some (''a'', [], [])"
    using doBuildCommandData_layout [where data = None and lib = exampleLib
      and payload = "[]" and command = "[CHR ''a'', CHR 0x00]" and extra = "[]"]
    by (simp add: exampleLib_def CommandToBytes12_zero_name BytesToCommand12_zero_name
        decodeEnvelope_def PutUint32_def Uint32_def)
  show ?thesis
    using huge zero by simp
qed

text \<open>
  Whatever decoder stands on the other side, it cannot tell these two requests apart:
  a payload of \<open>2 ^ 32\<close> bytes with no extra bytes, and no payload with \<open>2 ^ 32\<close> extra
  bytes.
\<close>

lemma doBuildCommandData_not_injective:
  "doBuildCommandData exampleLib command (Some hugePayload) [] =
   doBuildCommandData exampleLib command (Some []) hugePayload"
  using doBuildCommandData_layout [where data = "Some hugePayload" and lib = exampleLib
      and payload = hugePayload and command = command and extra = "[]"]
    doBuildCommandData_layout [where data = "Some []" and lib = exampleLib
      and payload = "[]" and command = command and extra = hugePayload]
  by (simp add: exampleLib_def of_nat_length_hugePayload)

subsection \<open>The response\<close>

lemma boom_chars:
  "char_of (98::nat) = CHR ''b''" "char_of (111::nat) = CHR ''o''"
  "char_of (109::nat) = CHR ''m''"
  by code_simp+

text \<open>An address that fails the check ends both sending functions before any I/O.\<close>

lemma invalid_address_no_io:
  assumes "CheckNodeAddress addr = Some err"
  shows "SendDataWaitResponse lib dec net addr data datapayload = (Some err, datapayload)"
    and "SendData lib net addr data = Some err"
  using assms by (simp_all add: SendDataWaitResponse_def SendData_def)

text \<open>
  With \<open>nil\<close> for \<open>datapayload\<close> (as \<open>addnode\<close> and \<open>removenode\<close> call it) a response of
  status 1 is a success whatever bytes follow: nothing is decoded.
\<close>

lemma SendDataWaitResponse_nil_target:
  assumes "CheckNodeAddress addr = None" and "dial_error net = None" and "copy_error net = None"
    and "read_all net = (1 # body, None)"
  shows "SendDataWaitResponse lib dec net addr data None = (None, None)"
  using assms by (simp add: SendDataWaitResponse_def)

text \<open>
  C7 (empty response): when the address is valid, the connection is made, the request
  is written and the read ends with no byte and no error, the call fails with the
  NoResponse error; and whenever the call succeeds, at least one byte was read.
\<close>

theorem SendDataWaitResponse_no_response:
  "(CheckNodeAddress addr = None \<and> dial_error net = None \<and> copy_error net = None \<and>
    read_all net = ([], None) \<longrightarrow>
      SendDataWaitResponse lib dec net addr data datapayload =
        (Some (NoResponseError ''Received 0 bytes as a response. Expected at least 1 byte''),
         datapayload)) \<and>
   (fst (SendDataWaitResponse lib dec net addr data datapayload) = None \<longrightarrow>
      fst (read_all net) \<noteq> [])"
  by (auto simp: SendDataWaitResponse_def split: option.splits prod.splits list.splits if_splits)

theorem SendDataWaitResponse_no_response_witness:
  "SendDataWaitResponse exampleLib exampleGob
     \<lparr>dial_error = None, copy_error = None, read_all = ([], None)\<rparr>
     exampleAddr [1, 2] (Some []) =
     (Some (NoResponseError ''Received 0 bytes as a response. Expected at least 1 byte''),
      Some []) \<and>
   fst (SendDataWaitResponse exampleLib exampleGob
     \<lparr>dial_error = None, copy_error = None, read_all = ([1, 5], None)\<rparr>
     exampleAddr [1, 2] (Some [])) = None \<and>
   fst (read_all \<lparr>dial_error = None, copy_error = None, read_all = ([1, 5], None)\<rparr>) \<noteq> []"
  using SendDataWaitResponse_no_response
    [where addr = exampleAddr and lib = exampleLib and dec = exampleGob and data = "[1, 2]"
      and datapayload = "Some []"
      and net = "\<lparr>dial_error = None, copy_error = None, read_all = ([], None)\<rparr>"]
    SendDataWaitResponse_no_response
    [where addr = exampleAddr and lib = exampleLib and dec = exampleGob and data = "[1, 2]"
      and datapayload = "Some []"
      and net = "\<lparr>dial_error = None, copy_error = None, read_all = ([1, 5], None)\<rparr>"]
  by (simp add: SendDataWaitResponse_def CheckNodeAddress_def exampleAddr_def exampleGob_def)

text \<open>
  C8 (status of the response): for a response \<open>status # body\<close> read after a valid
  address, a connection and a complete write: with status 1 the body is decoded into
  the caller's value and the call succeeds with it, or fails with CanNotParseResponse
  when the decoder fails; with any other status the body is decoded as a string, which
  becomes the error of the call as it is, or the call fails with CanNotParseResponse
  when the decoder fails.
\<close>

theorem SendDataWaitResponse_status:
  assumes "CheckNodeAddress addr = None" and "dial_error net = None" and "copy_error net = None"
    and "read_all net = (status # body, None)"
  shows
   "(status = 1 \<and> datapayload = Some target \<and> GobDecode dec body target = (v, None) \<longrightarrow>
       SendDataWaitResponse lib dec net addr data datapayload = (None, Some v)) \<and>
    (status = 1 \<and> datapayload = Some target \<and> GobDecode dec body target = (v, Some e) \<longrightarrow>
       fst (SendDataWaitResponse lib dec net addr data datapayload) =
         Some (CanNotParseResponseError e)) \<and>
    (status \<noteq> 1 \<and> GobDecodeString dec body = (msg, None) \<longrightarrow>
       fst (SendDataWaitResponse lib dec net addr data datapayload) = Some (Error msg)) \<and>
    (status \<noteq> 1 \<and> GobDecodeString dec body = (msg, Some e) \<longrightarrow>
       fst (SendDataWaitResponse lib dec net addr data datapayload) =
         Some (CanNotParseResponseError e))"
  using assms by (simp add: SendDataWaitResponse_def)

text \<open>
  The witness of C8: status 1 with a body, status 1 with a body that does not decode,
  status 0 with the body \<open>boom\<close>, status 0 with a body that does not decode.
\<close>

theorem SendDataWaitResponse_status_witness:
  "SendDataWaitResponse exampleLib exampleGob
     \<lparr>dial_error = None, copy_error = None, read_all = ([1, 7, 8], None)\<rparr>
     exampleAddr [1, 2] (Some []) = (None, Some [7, 8]) \<and>
   fst (SendDataWaitResponse exampleLib exampleGob
     \<lparr>dial_error = None, copy_error = None, read_all = ([1], None)\<rparr>
     exampleAddr [1, 2] (Some [])) = Some (CanNotParseResponseError ''EOF'') \<and>
   fst (SendDataWaitResponse exampleLib exampleGob
     \<lparr>dial_error = None, copy_error = None, read_all = ([0, 98, 111, 111, 109], None)\<rparr>
     exampleAddr [1, 2] (Some [])) = Some (Error ''boom'') \<and>
   fst (SendDataWaitResponse exampleLib exampleGob
     \<lparr>dial_error = None, copy_error = None, read_all = ([0], None)\<rparr>
     exampleAddr [1, 2] (Some [])) = Some (CanNotParseResponseError ''EOF'')"
  using
    SendDataWaitResponse_status
    [where addr = exampleAddr and lib = exampleLib and dec = exampleGob and data = "[1, 2]"
      and datapayload = "Some []" and target = "[]" and status = 1 and body = "[7, 8]"
      and v = "[7, 8]" and msg = "[]" and e = "[]"
      and net = "\<lparr>dial_error = None, copy_error = None, read_all = ([1, 7, 8], None)\<rparr>"]
    SendDataWaitResponse_status
    [where addr = exampleAddr and lib = exampleLib and dec = exampleGob and data = "[1, 2]"
      and datapayload = "Some []" and target = "[]" and status = 1 and body = "[]"
      and v = "[]" and msg = "[]" and e = "''EOF''"
      and net = "\<lparr>dial_error = None, copy_error = None, read_all = ([1], None)\<rparr>"]
    SendDataWaitResponse_status
    [where addr = exampleAddr and lib = exampleLib and dec = exampleGob and data = "[1, 2]"
      and datapayload = "Some []" and target = "[]" and status = 0
      and body = "[98, 111, 111, 109]" and v = "[]" and msg = "''boom''" and e = "[]"
      and net = "\<lparr>dial_error = None, copy_error = None,
        read_all = ([0, 98, 111, 111, 109], None)\<rparr>"]
    SendDataWaitResponse_status
    [where addr = exampleAddr and lib = exampleLib and dec = exampleGob and data = "[1, 2]"
      and datapayload = "Some []" and target = "[]" and status = 0 and body = "[]"
      and v = "[]" and msg = "[]" and e = "''EOF''"
      and net = "\<lparr>dial_error = None, copy_error = None, read_all = ([0], None)\<rparr>"]
  by (simp add: CheckNodeAddress_def exampleAddr_def exampleGob_def boom_chars)

end
